theory Spec2Isabelle
  imports Main
begin

section \<open>The environment of \<open>ocn_common.contracts\<close>\<close>

text \<open>
  The module reads schema files, parses JSON with the standard library and checks
  instances with the \<open>jsonschema\<close> package. None of the three is code of the
  repository, so each is a parameter of the model:
  \<^item> the filesystem is part of a \<open>world\<close> that every operation threads through,
    together with the list of paths handed to \<open>open\<close> (the instrumentation that
    counts reads);
  \<^item> \<open>json.loads\<close>, \<open>Draft202012Validator.check_schema\<close> and
    \<open>Draft202012Validator.iter_errors\<close> are the fields of a record \<open>jsonlib\<close>;
    \<open>'j\<close> is the type of parsed JSON values.
  Paths are those of \<open>pathlib\<close> on a POSIX system.
  Python exceptions are values of the datatype \<open>exn\<close>; an operation returns
  \<open>exn + 'a\<close> with \<open>Inl\<close> for a raised exception. Every constructor stands
  for a subclass of \<open>Exception\<close>, so a clause \<open>except Exception\<close> catches all
  of them; \<open>OtherException\<close> is any exception that no clause of the module names.
\<close>

datatype pelem = Key string | Idx nat

record violation =
  message :: string
  path :: "pelem list"
  schema_path :: "pelem list"
  rendered :: string

datatype exn =
    ContractValidationError string
  | JSONDecodeError string
  | ValidationError violation
  | SchemaError string
  | OtherException string

text \<open>\<open>str(e)\<close>, as the f-strings of the module format an exception.\<close>

fun str_exn :: "exn \<Rightarrow> string" where
  "str_exn (ContractValidationError m) = m"
| "str_exn (JSONDecodeError m) = m"
| "str_exn (ValidationError v) = rendered v"
| "str_exn (SchemaError m) = m"
| "str_exn (OtherException m) = m"

text \<open>
  What iterating \<open>validator.iter_errors(instance)\<close> does: it yields violations in
  order and then either stops or raises an exception that is not a
  \<open>ValidationError\<close> (an unresolvable reference, a bad regular expression).
\<close>

datatype run = Run (yielded: "violation list") (raised: "string option")

text \<open>
  \<open>json.loads(text)\<close> returns the value, or raises \<open>JSONDecodeError\<close> on a text
  that is not JSON (\<open>Malformed\<close>, with the text of the exception), or raises
  another exception before it has decided (\<open>Aborted\<close>: \<open>RecursionError\<close> on
  deeply nested brackets, \<open>ValueError\<close> on an integer beyond the digit limit).
\<close>

datatype json_failure = Malformed string | Aborted string

record 'j jsonlib =
  json_loads :: "string \<Rightarrow> json_failure + 'j"
  check_schema :: "'j \<Rightarrow> string option"
  iter_errors :: "'j \<Rightarrow> 'j \<Rightarrow> run"

text \<open>
  \<open>open(p)\<close> either gives the text of the file, or raises \<open>FileNotFoundError\<close>,
  or raises another error (permissions, a directory, undecodable bytes).
  \<open>listing\<close> gives the entry names of a directory, \<open>None\<close> when nothing exists
  at the path (\<open>Path.exists()\<close> is false); a path that exists and is no directory
  has no entries.
\<close>

datatype read_result = Content string | NotFound | Unreadable string

record world =
  files :: "string \<Rightarrow> read_result"
  listing :: "string \<Rightarrow> string list option"
  opened :: "string list"

text \<open>
  A \<open>pathlib\<close> path is a root (empty, \<open>/\<close> or \<open>//\<close>) and a list of
  components. Parsing a string splits it at the slashes and drops the empty
  components and the components \<open>.\<close>; exactly two leading slashes are kept as
  the root \<open>//\<close>. \<open>base / segment\<close> parses the segment: an absolute segment
  replaces the base, a relative one adds its components. \<open>str(path)\<close> is what
  \<open>open\<close> receives and what the messages print.
\<close>

record pure_path =
  path_root :: string
  path_parts :: "string list"

fun split_sep :: "char \<Rightarrow> string \<Rightarrow> string list" where
  "split_sep c [] = [[]]"
| "split_sep c (x # xs) =
     (if x = c then [] # split_sep c xs
      else (case split_sep c xs of [] \<Rightarrow> [[x]] | y # ys \<Rightarrow> (x # y) # ys))"

definition parse_root :: "string \<Rightarrow> string" where
  "parse_root s =
     (if take 1 s \<noteq> ''/'' then []
      else if take 1 (drop 1 s) \<noteq> ''/'' \<or> take 1 (drop 2 s) = ''/'' then ''/''
      else ''//'')"

definition parse_path :: "string \<Rightarrow> pure_path" where
  "parse_path s =
     \<lparr>path_root = parse_root s,
      path_parts = filter (\<lambda>c. c \<noteq> [] \<and> c \<noteq> ''.'') (split_sep CHR ''/'' s)\<rparr>"

definition joinpath :: "pure_path \<Rightarrow> string \<Rightarrow> pure_path" where
  "joinpath p seg =
     (let q = parse_path seg
      in if path_root q \<noteq> [] then q
         else p\<lparr>path_parts := path_parts p @ path_parts q\<rparr>)"

fun join :: "string \<Rightarrow> string list \<Rightarrow> string" where
  "join sep [] = []"
| "join sep [x] = x"
| "join sep (x # y # ys) = x @ sep @ join sep (y # ys)"

definition str_path :: "pure_path \<Rightarrow> string" where
  "str_path p =
     (if path_root p = [] \<and> path_parts p = [] then ''.''
      else path_root p @ join ''/'' (path_parts p))"

section \<open>SchemaLoader\<close>

record 'j SchemaLoader =
  base_path :: pure_path
  schemas_cache :: "string \<rightharpoonup> 'j"

text \<open>
  \<open>_load_schema\<close>. Its first \<open>except\<close> clause names \<open>JSONDecodeError\<close> and
  \<open>ValidationError\<close>, its second \<open>FileNotFoundError\<close>. \<open>check_schema\<close> raises
  \<open>SchemaError\<close>, which is no subclass of \<open>ValidationError\<close>: it passes through
  both clauses, as any other error of \<open>open\<close> and any exception of
  \<open>json.load\<close> other than \<open>JSONDecodeError\<close> does.
\<close>

definition load_schema ::
  "'j jsonlib \<Rightarrow> pure_path \<Rightarrow> world \<Rightarrow> (exn + 'j) \<times> world" where
  "load_schema lib file_path w =
     (let w' = w\<lparr>opened := opened w @ [str_path file_path]\<rparr> in
      case files w (str_path file_path) of
        NotFound \<Rightarrow>
          (Inl (ContractValidationError
             (''Schema not found at '' @ str_path file_path)), w')
      | Unreadable e \<Rightarrow> (Inl (OtherException e), w')
      | Content text \<Rightarrow>
          (case json_loads lib text of
             Inl (Malformed e) \<Rightarrow>
               (Inl (ContractValidationError
                  (''Invalid schema at '' @ str_path file_path @ '': '' @ e)), w')
           | Inl (Aborted e) \<Rightarrow> (Inl (OtherException e), w')
           | Inr schema \<Rightarrow>
               (case check_schema lib schema of
                  Some e \<Rightarrow> (Inl (SchemaError e), w')
                | None \<Rightarrow> (Inr schema, w'))))"

definition cache_key :: "string \<Rightarrow> string \<Rightarrow> string" where
  "cache_key schema_type schema_name = schema_type @ ''/'' @ schema_name"

definition mandates_dir :: "'j SchemaLoader \<Rightarrow> pure_path" where
  "mandates_dir l = joinpath (joinpath (base_path l) ''common'') ''mandates''"

definition events_dir :: "'j SchemaLoader \<Rightarrow> pure_path" where
  "events_dir l =
     joinpath (joinpath (joinpath (base_path l) ''common'') ''events'') ''v1''"

definition store_schema ::
  "'j SchemaLoader \<Rightarrow> string \<Rightarrow> (exn + 'j) \<times> world
     \<Rightarrow> (exn + 'j) \<times> 'j SchemaLoader \<times> world" where
  "store_schema l k rw =
     (case rw of
        (Inl e, w') \<Rightarrow> (Inl e, l, w')
      | (Inr schema, w') \<Rightarrow>
          (Inr schema, l\<lparr>schemas_cache := (schemas_cache l)(k \<mapsto> schema)\<rparr>, w'))"

definition get_schema ::
  "'j jsonlib \<Rightarrow> string \<Rightarrow> string \<Rightarrow> 'j SchemaLoader \<times> world
     \<Rightarrow> (exn + 'j) \<times> 'j SchemaLoader \<times> world" where
  "get_schema lib schema_name schema_type lw =
     (case lw of (l, w) \<Rightarrow>
        (case schemas_cache l (cache_key schema_type schema_name) of
           Some schema \<Rightarrow> (Inr schema, l, w)
         | None \<Rightarrow>
             if schema_type = ''mandates'' then
               store_schema l (cache_key schema_type schema_name)
                 (load_schema lib
                    (joinpath (mandates_dir l) (schema_name @ ''.schema.json'')) w)
             else if schema_type = ''events'' then
               store_schema l (cache_key schema_type schema_name)
                 (load_schema lib
                    (joinpath (events_dir l) (schema_name @ ''.schema.json'')) w)
             else
               (Inl (ContractValidationError
                  (''Unknown schema type: '' @ schema_type)), l, w)))"

text \<open>
  The file that \<open>get_schema\<close> reads on a cache miss, for a schema of one of the
  two known types (a name for the statements below).
\<close>

definition schema_file :: "'j SchemaLoader \<Rightarrow> string \<Rightarrow> string \<Rightarrow> pure_path" where
  "schema_file l schema_name schema_type =
     joinpath (if schema_type = ''mandates'' then mandates_dir l else events_dir l)
       (schema_name @ ''.schema.json'')"

text \<open>
  \<open>list_available_schemas\<close>: the dictionary literal with its two keys is an
  association list. \<open>glob("*.schema.json")\<close> keeps the entries whose name ends in
  \<open>.schema.json\<close>; \<open>Path.stem\<close> is the name without its last suffix.
\<close>

definition endswith :: "string \<Rightarrow> string \<Rightarrow> bool" where
  "endswith s suf =
     (length suf \<le> length s \<and> drop (length s - length suf) s = suf)"

fun rfind :: "char \<Rightarrow> string \<Rightarrow> nat option" where
  "rfind c [] = None"
| "rfind c (x # xs) =
     (case rfind c xs of
        Some i \<Rightarrow> Some (Suc i)
      | None \<Rightarrow> if x = c then Some 0 else None)"

definition stem :: "string \<Rightarrow> string" where
  "stem name =
     (case rfind CHR ''.'' name of
        None \<Rightarrow> name
      | Some i \<Rightarrow> if 0 < i \<and> i < length name - 1 then take i name else name)"

definition glob_stems :: "world \<Rightarrow> pure_path \<Rightarrow> string list" where
  "glob_stems w dir =
     (case listing w (str_path dir) of
        None \<Rightarrow> []
      | Some names \<Rightarrow>
          map stem (filter (\<lambda>n. endswith n ''.schema.json'') names))"

definition list_available_schemas ::
  "'j SchemaLoader \<Rightarrow> world \<Rightarrow> (string \<times> string list) list" where
  "list_available_schemas l w =
     [(''mandates'', glob_stems w (mandates_dir l)),
      (''events'', glob_stems w (events_dir l))]"

section \<open>ContractValidator\<close>

datatype 'j validator = Draft202012Validator (schema_of: 'j)

record 'j ContractValidator =
  schema_loader :: "'j SchemaLoader"
  validators_cache :: "string \<rightharpoonup> 'j validator"

text \<open>
  A payload is a JSON text or an already parsed value. Parsing a text raises what
  \<open>json.loads\<close> raises.
\<close>

datatype 'j payload = Text string | Parsed 'j

definition parse_payload :: "'j jsonlib \<Rightarrow> 'j payload \<Rightarrow> exn + 'j" where
  "parse_payload lib payload =
     (case payload of
        Parsed j \<Rightarrow> Inr j
      | Text s \<Rightarrow>
          (case json_loads lib s of
             Inl (Malformed e) \<Rightarrow> Inl (JSONDecodeError e)
           | Inl (Aborted e) \<Rightarrow> Inl (OtherException e)
           | Inr j \<Rightarrow> Inr j))"

text \<open>
  \<open>validator.validate(instance)\<close> of the package raises the first error that
  \<open>iter_errors\<close> yields.
\<close>

definition validate :: "'j jsonlib \<Rightarrow> 'j validator \<Rightarrow> 'j \<Rightarrow> exn + unit" where
  "validate lib vd instance =
     (case iter_errors lib (schema_of vd) instance of
        Run (e # es) r \<Rightarrow> Inl (ValidationError e)
      | Run [] (Some x) \<Rightarrow> Inl (OtherException x)
      | Run [] None \<Rightarrow> Inr ())"

definition get_validator ::
  "'j jsonlib \<Rightarrow> string \<Rightarrow> string \<Rightarrow> 'j ContractValidator \<times> world
     \<Rightarrow> (exn + 'j validator) \<times> 'j ContractValidator \<times> world" where
  "get_validator lib schema_name schema_type vw =
     (case vw of (v, w) \<Rightarrow>
        (case validators_cache v (cache_key schema_type schema_name) of
           Some vd \<Rightarrow> (Inr vd, v, w)
         | None \<Rightarrow>
             (case get_schema lib schema_name schema_type (schema_loader v, w) of
                (Inl e, l', w') \<Rightarrow> (Inl e, v\<lparr>schema_loader := l'\<rparr>, w')
              | (Inr schema, l', w') \<Rightarrow>
                  (Inr (Draft202012Validator schema),
                   v\<lparr>schema_loader := l',
                     validators_cache :=
                       (validators_cache v)(cache_key schema_type schema_name
                          \<mapsto> Draft202012Validator schema)\<rparr>,
                   w'))))"

text \<open>
  Each public method is a \<open>try\<close> block with \<open>except\<close> clauses: the body is one
  function, the clauses another that maps the exception caught to the one raised.
\<close>

definition apply_validator ::
  "'j jsonlib \<Rightarrow> 'j \<Rightarrow> (exn + 'j validator) \<times> 'j ContractValidator \<times> world
     \<Rightarrow> (exn + bool) \<times> 'j ContractValidator \<times> world" where
  "apply_validator lib j r =
     (case r of
        (Inl e, v', w') \<Rightarrow> (Inl e, v', w')
      | (Inr vd, v', w') \<Rightarrow>
          (case validate lib vd j of
             Inl e \<Rightarrow> (Inl e, v', w')
           | Inr u \<Rightarrow> (Inr True, v', w')))"

definition validate_json_body ::
  "'j jsonlib \<Rightarrow> 'j payload \<Rightarrow> string \<Rightarrow> 'j ContractValidator \<times> world
     \<Rightarrow> (exn + bool) \<times> 'j ContractValidator \<times> world" where
  "validate_json_body lib payload schema_name vw =
     (case parse_payload lib payload of
        Inl e \<Rightarrow> (Inl e, vw)
      | Inr j \<Rightarrow>
          apply_validator lib j (get_validator lib schema_name ''mandates'' vw))"

fun validate_json_except :: "string \<Rightarrow> exn \<Rightarrow> exn" where
  "validate_json_except schema_name (JSONDecodeError e) =
     ContractValidationError (''Invalid JSON payload: '' @ e)"
| "validate_json_except schema_name (ValidationError e) =
     ContractValidationError
       (''Validation failed for schema '' @ [CHR 0x27] @ schema_name @ [CHR 0x27]
          @ '': '' @ message e)"
| "validate_json_except schema_name e =
     ContractValidationError (''Unexpected validation error: '' @ str_exn e)"

definition validate_json ::
  "'j jsonlib \<Rightarrow> 'j payload \<Rightarrow> string \<Rightarrow> 'j ContractValidator \<times> world
     \<Rightarrow> (exn + bool) \<times> 'j ContractValidator \<times> world" where
  "validate_json lib payload schema_name vw =
     (case validate_json_body lib payload schema_name vw of
        (Inl e, vw') \<Rightarrow> (Inl (validate_json_except schema_name e), vw')
      | (Inr b, vw') \<Rightarrow> (Inr b, vw'))"

definition type_to_schema :: "(string \<times> string) list" where
  "type_to_schema =
     [(''ocn.orca.decision.v1'', ''orca.decision.v1''),
      (''ocn.orca.explanation.v1'', ''orca.explanation.v1''),
      (''ocn.weave.audit.v1'', ''weave.audit.v1'')]"

definition validate_cloudevent_body ::
  "'j jsonlib \<Rightarrow> 'j payload \<Rightarrow> string \<Rightarrow> 'j ContractValidator \<times> world
     \<Rightarrow> (exn + bool) \<times> 'j ContractValidator \<times> world" where
  "validate_cloudevent_body lib payload type_name vw =
     (case parse_payload lib payload of
        Inl e \<Rightarrow> (Inl e, vw)
      | Inr j \<Rightarrow>
          (case map_of type_to_schema type_name of
             None \<Rightarrow>
               (Inl (ContractValidationError
                  (''Unknown CloudEvent type: '' @ type_name)), vw)
           | Some schema_name \<Rightarrow>
               if schema_name = [] then
                 (Inl (ContractValidationError
                    (''Unknown CloudEvent type: '' @ type_name)), vw)
               else
                 apply_validator lib j
                   (get_validator lib schema_name ''events'' vw)))"

fun validate_cloudevent_except :: "string \<Rightarrow> exn \<Rightarrow> exn" where
  "validate_cloudevent_except type_name (JSONDecodeError e) =
     ContractValidationError (''Invalid JSON payload: '' @ e)"
| "validate_cloudevent_except type_name (ValidationError e) =
     ContractValidationError
       (''Validation failed for CloudEvent type '' @ [CHR 0x27] @ type_name
          @ [CHR 0x27] @ '': '' @ message e)"
| "validate_cloudevent_except type_name e =
     ContractValidationError (''Unexpected validation error: '' @ str_exn e)"

definition validate_cloudevent ::
  "'j jsonlib \<Rightarrow> 'j payload \<Rightarrow> string \<Rightarrow> 'j ContractValidator \<times> world
     \<Rightarrow> (exn + bool) \<times> 'j ContractValidator \<times> world" where
  "validate_cloudevent lib payload type_name vw =
     (case validate_cloudevent_body lib payload type_name vw of
        (Inl e, vw') \<Rightarrow> (Inl (validate_cloudevent_except type_name e), vw')
      | (Inr b, vw') \<Rightarrow> (Inr b, vw'))"

text \<open>
  \<open>get_validation_errors\<close>. \<open>str(p)\<close> of a path element prints a key as it is
  and an index in decimal; the elements are joined with dots.
\<close>

fun str_nat :: "nat \<Rightarrow> string" where
  "str_nat n =
     (if n < 10 then [''0123456789'' ! n]
      else str_nat (n div 10) @ [''0123456789'' ! (n mod 10)])"

fun str_pelem :: "pelem \<Rightarrow> string" where
  "str_pelem (Key s) = s"
| "str_pelem (Idx n) = str_nat n"

type_synonym error_entry = "(string \<times> string) list"

definition error_entry :: "string \<Rightarrow> string \<Rightarrow> string \<Rightarrow> error_entry" where
  "error_entry p m sp = [(''path'', p), (''message'', m), (''schema_path'', sp)]"

definition violation_entry :: "violation \<Rightarrow> error_entry" where
  "violation_entry error =
     error_entry (join ''.'' (map str_pelem (path error))) (message error)
       (join ''.'' (map str_pelem (schema_path error)))"

definition collect_errors ::
  "'j jsonlib \<Rightarrow> 'j \<Rightarrow> (exn + 'j validator) \<times> 'j ContractValidator \<times> world
     \<Rightarrow> (exn + error_entry list) \<times> 'j ContractValidator \<times> world" where
  "collect_errors lib j r =
     (case r of
        (Inl e, v', w') \<Rightarrow> (Inl e, v', w')
      | (Inr vd, v', w') \<Rightarrow>
          (case iter_errors lib (schema_of vd) j of
             Run es (Some x) \<Rightarrow> (Inl (OtherException x), v', w')
           | Run es None \<Rightarrow> (Inr (map violation_entry es), v', w')))"

definition get_validation_errors_body ::
  "'j jsonlib \<Rightarrow> 'j payload \<Rightarrow> string \<Rightarrow> string \<Rightarrow> 'j ContractValidator \<times> world
     \<Rightarrow> (exn + error_entry list) \<times> 'j ContractValidator \<times> world" where
  "get_validation_errors_body lib payload schema_name schema_type vw =
     (case parse_payload lib payload of
        Inl e \<Rightarrow> (Inl e, vw)
      | Inr j \<Rightarrow>
          collect_errors lib j (get_validator lib schema_name schema_type vw))"

fun get_validation_errors_except :: "exn \<Rightarrow> exn + error_entry list" where
  "get_validation_errors_except (JSONDecodeError e) =
     Inr [error_entry [] (''Invalid JSON: '' @ e) []]"
| "get_validation_errors_except e =
     Inr [error_entry [] (''Validation error: '' @ str_exn e) []]"

definition get_validation_errors ::
  "'j jsonlib \<Rightarrow> 'j payload \<Rightarrow> string \<Rightarrow> string \<Rightarrow> 'j ContractValidator \<times> world
     \<Rightarrow> (exn + error_entry list) \<times> 'j ContractValidator \<times> world" where
  "get_validation_errors lib payload schema_name schema_type vw =
     (case get_validation_errors_body lib payload schema_name schema_type vw of
        (Inl e, vw') \<Rightarrow> (get_validation_errors_except e, vw')
      | (Inr errors, vw') \<Rightarrow> (Inr errors, vw'))"

section \<open>\<open>ocn_common.trace\<close>: \<open>inject_trace_id_ce\<close>\<close>

text \<open>
  A Python dictionary is a mutable object reached through a reference, so the
  envelope is an address into a store of dictionaries. A value is a string or any
  other Python value (\<open>'a\<close>: numbers, \<open>None\<close>, references to nested
  containers). \<open>dict.copy()\<close> allocates a new dictionary with the same items;
  \<open>d[k] = v\<close> updates the dictionary at an address in place. An address outside
  the store is no Python reference: the operations return \<open>None\<close> there.
\<close>

datatype 'a pyval = PStr string | PObj 'a

type_synonym 'a pydict = "string \<rightharpoonup> 'a pyval"

type_synonym 'a heap = "'a pydict list"

definition dict_copy :: "'a heap \<Rightarrow> nat \<Rightarrow> (nat \<times> 'a heap) option" where
  "dict_copy h a = (if a < length h then Some (length h, h @ [h ! a]) else None)"

definition dict_setitem ::
  "'a heap \<Rightarrow> nat \<Rightarrow> string \<Rightarrow> 'a pyval \<Rightarrow> 'a heap option" where
  "dict_setitem h a k v =
     (if a < length h then Some (h[a := (h ! a)(k \<mapsto> v)]) else None)"

definition inject_trace_id_ce ::
  "'a heap \<Rightarrow> nat \<Rightarrow> string \<Rightarrow> (nat \<times> 'a heap) option" where
  "inject_trace_id_ce h envelope trace_id =
     (case dict_copy h envelope of
        None \<Rightarrow> None
      | Some (modified_envelope, h1) \<Rightarrow>
          (case dict_setitem h1 modified_envelope ''subject'' (PStr trace_id) of
             None \<Rightarrow> None
           | Some h2 \<Rightarrow> Some (modified_envelope, h2)))"

section \<open>A small installation for concrete runs\<close>

text \<open>
  JSON values are their own text here. The schema \<open>true\<close> accepts every instance,
  the schema \<open>false\<close> rejects every instance with one violation. The schema
  \<open>scores_schema\<close> bounds the items of an array; \<open>dangling_schema\<close> holds a
  reference that cannot be resolved, met after the first property has been checked.
  A text that opens with a thousand brackets exhausts the recursion limit of the
  parser.
\<close>

definition example_violation :: "string \<Rightarrow> violation" where
  "example_violation inst =
     \<lparr>message = ''False schema does not allow '' @ inst,
      path = [], schema_path = [],
      rendered = ''False schema does not allow '' @ inst @ '' (on instance)''\<rparr>"

definition scores_schema :: string where
  \<open>scores_schema = ''{"properties": {"scores": {"items": {"maximum": 1}}}}''\<close>

definition scores_instance :: string where
  \<open>scores_instance = ''{"scores": [0, 2, 3]}''\<close>

definition dangling_schema :: string where
  \<open>dangling_schema =
     ''{"properties": {"a": {"maximum": 1}, "b": {"$ref": "#/nope"}}}''\<close>

definition dangling_instance :: string where
  \<open>dangling_instance = ''{"a": 2, "b": 0}''\<close>

definition maximum_violation :: "string \<Rightarrow> pelem list \<Rightarrow> pelem list \<Rightarrow> violation" where
  "maximum_violation n p sp =
     \<lparr>message = n @ '' is greater than the maximum of 1'',
      path = p, schema_path = sp,
      rendered = n @ '' is greater than the maximum of 1 (on instance)''\<rparr>"

definition example_lib :: "string jsonlib" where
  "example_lib =
     \<lparr>json_loads = (\<lambda>s.
         if 1000 \<le> length (takeWhile (\<lambda>c. c = CHR ''['') s)
         then Inl (Aborted ''maximum recursion depth exceeded'')
         else if s = ''true'' \<or> s = ''false'' \<or> s = ''{}'' \<or> s = ''1''
               \<or> s = scores_schema \<or> s = scores_instance
               \<or> s = dangling_schema \<or> s = dangling_instance
         then Inr s
         else Inl (Malformed ''Expecting value'')),
      check_schema = (\<lambda>j. if j = ''1'' then Some ''1 is not a schema'' else None),
      iter_errors = (\<lambda>schema inst.
         if schema = ''false'' then Run [example_violation inst] None
         else if schema = scores_schema \<and> inst = scores_instance
         then Run
           [maximum_violation ''2'' [Key ''scores'', Idx 1]
              [Key ''properties'', Key ''scores'', Key ''items'', Key ''maximum''],
            maximum_violation ''3'' [Key ''scores'', Idx 2]
              [Key ''properties'', Key ''scores'', Key ''items'', Key ''maximum'']]
           None
         else if schema = dangling_schema \<and> inst = dangling_instance
         then Run
           [maximum_violation ''2'' [Key ''a'']
              [Key ''properties'', Key ''a'', Key ''maximum'']]
           (Some ''Unresolvable: #/nope'')
         else Run [] None)\<rparr>"

definition example_files :: "string \<Rightarrow> read_result" where
  "example_files p =
     (if p = ''/repo/common/mandates/any.schema.json'' then Content ''true''
      else if p = ''/repo/common/mandates/none.schema.json'' then Content ''false''
      else if p = ''/repo/common/mandates/a/b.schema.json'' then Content ''{}''
      else if p = ''/repo/common/mandates/bad.schema.json'' then Content ''1''
      else if p = ''/repo/common/mandates/scores.schema.json''
      then Content scores_schema
      else if p = ''/repo/common/mandates/dangling.schema.json''
      then Content dangling_schema
      else NotFound)"

definition example_listing :: "string \<Rightarrow> string list option" where
  "example_listing p =
     (if p = ''/repo/common/mandates''
      then Some [''any.schema.json'', ''README.md'', ''none.schema.json'', ''a'',
                 ''bad.schema.json'', ''scores.schema.json'', ''dangling.schema.json'']
      else if p = ''/repo/common/events/v1'' then Some [''notes.txt'']
      else None)"

definition example_world :: world where
  "example_world =
     \<lparr>files = example_files, listing = example_listing, opened = []\<rparr>"

definition example_loader :: "string SchemaLoader" where
  "example_loader = \<lparr>base_path = parse_path ''/repo'', schemas_cache = Map.empty\<rparr>"

definition example_validator :: "string ContractValidator" where
  "example_validator =
     \<lparr>schema_loader = example_loader, validators_cache = Map.empty\<rparr>"

definition example_heap :: "nat heap" where
  "example_heap =
     [[''id'' \<mapsto> PStr ''event-123'', ''data'' \<mapsto> PObj 1],
      [''decision'' \<mapsto> PStr ''APPROVE'']]"

section \<open>The texts of the small installation\<close>

lemmas example_texts =
  scores_schema_def scores_instance_def dangling_schema_def dangling_instance_def

section \<open>The CloudEvent type registry\<close>

lemma orion_not_registered:
  "map_of type_to_schema ''ocn.orion.explanation.v1'' = None"
  by (simp add: type_to_schema_def)

lemma validate_cloudevent_unknown:
  assumes "map_of type_to_schema type_name = None"
    and "parse_payload lib payload = Inr j"
  shows "validate_cloudevent lib payload type_name vw =
     (Inl (ContractValidationError
        (''Unexpected validation error: Unknown CloudEvent type: '' @ type_name)), vw)"
  using assms by (simp add: validate_cloudevent_def validate_cloudevent_body_def)

text \<open>
  Claim C1. The specification and the repository's test
  \<open>test_orion_explanation_event_valid\<close> expect \<open>validate_cloudevent\<close> to return
  \<open>True\<close> for a valid Orion explanation event with wire type
  \<open>ocn.orion.explanation.v1\<close>. The registry \<open>type_to_schema\<close> of the code has
  three entries and this wire type is none of them: for every parsed payload, every
  library and every state the call raises \<open>ContractValidationError\<close> with the
  message of an unknown CloudEvent type and leaves the state as it was, and for no
  payload at all does it return \<open>True\<close>.
\<close>

theorem validate_cloudevent_orion_unregistered:
  "validate_cloudevent lib (Parsed j) ''ocn.orion.explanation.v1'' vw =
     (Inl (ContractValidationError
        ''Unexpected validation error: Unknown CloudEvent type: ocn.orion.explanation.v1''),
      vw)
   \<and> fst (validate_cloudevent lib payload ''ocn.orion.explanation.v1'' vw) \<noteq> Inr True"
proof
  show "validate_cloudevent lib (Parsed j) ''ocn.orion.explanation.v1'' vw =
     (Inl (ContractValidationError
        ''Unexpected validation error: Unknown CloudEvent type: ocn.orion.explanation.v1''),
      vw)"
    using validate_cloudevent_unknown [OF orion_not_registered, of lib "Parsed j" j vw]
    by (simp add: parse_payload_def)
  show "fst (validate_cloudevent lib payload ''ocn.orion.explanation.v1'' vw) \<noteq> Inr True"
    by (simp add: validate_cloudevent_def validate_cloudevent_body_def
        orion_not_registered split: sum.splits)
qed

text \<open>
  Claim C4. A wire type with no entry in the registry, on a payload that parses:
  \<open>validate_cloudevent\<close> raises \<open>ContractValidationError\<close> whose message names
  the unknown CloudEvent type (the \<open>raise\<close> sits inside the \<open>try\<close>, so the
  last \<open>except\<close> clause prefixes it with "Unexpected validation error: "), and the
  validator, the loader, both caches and the record of opened files are unchanged:
  no schema is resolved or loaded.
\<close>

theorem validate_cloudevent_unknown_type:
  assumes "type_name \<notin> set (map fst type_to_schema)"
    and "parse_payload lib payload = Inr j"
  shows "validate_cloudevent lib payload type_name vw =
     (Inl (ContractValidationError
        (''Unexpected validation error: Unknown CloudEvent type: '' @ type_name)), vw)"
proof -
  from assms(1) have "map_of type_to_schema type_name = None"
    by (simp add: map_of_eq_None_iff)
  then show ?thesis using assms(2) by (rule validate_cloudevent_unknown)
qed

theorem validate_cloudevent_unknown_type_witness:
  "''ocn.unknown.event.v1'' \<notin> set (map fst type_to_schema)
   \<and> parse_payload example_lib (Text ''{}'') = Inr ''{}''
   \<and> validate_cloudevent example_lib (Text ''{}'') ''ocn.unknown.event.v1''
        (example_validator, example_world) =
       (Inl (ContractValidationError
          ''Unexpected validation error: Unknown CloudEvent type: ocn.unknown.event.v1''),
        (example_validator, example_world))"
proof -
  have a: "''ocn.unknown.event.v1'' \<notin> set (map fst type_to_schema)"
    by (simp add: type_to_schema_def)
  have b: "parse_payload example_lib (Text ''{}'') = Inr ''{}''"
    by (simp add: parse_payload_def example_lib_def example_texts)
  show ?thesis
    using a b validate_cloudevent_unknown_type [OF a b, of "(example_validator, example_world)"]
    by simp
qed

section \<open>Texts that \<open>json.loads\<close> does not parse\<close>

text \<open>
  Claim C6, as stated, fails. On five thousand opening brackets \<open>json.loads\<close>
  raises \<open>RecursionError\<close>, not \<open>JSONDecodeError\<close>; the clause
  \<open>except json.JSONDecodeError\<close> does not catch it and the last clause answers
  "Unexpected validation error: ...", not "Invalid JSON payload: ...".
\<close>

theorem deep_nesting_not_invalid_json:
  "json_loads example_lib (replicate 5000 CHR ''['') =
     Inl (Aborted ''maximum recursion depth exceeded'')
   \<and> validate_json example_lib (Text (replicate 5000 CHR ''['')) ''any''
        (example_validator, example_world) =
       (Inl (ContractValidationError
          ''Unexpected validation error: maximum recursion depth exceeded''),
        (example_validator, example_world))
   \<and> validate_cloudevent example_lib (Text (replicate 5000 CHR ''[''))
        ''ocn.orca.decision.v1'' (example_validator, example_world) =
       (Inl (ContractValidationError
          ''Unexpected validation error: maximum recursion depth exceeded''),
        (example_validator, example_world))"
  by (simp add: validate_json_def validate_json_body_def validate_cloudevent_def
      validate_cloudevent_body_def parse_payload_def example_lib_def example_texts)

text \<open>
  Claim C6, amended. For a text on which \<open>json.loads\<close> raises
  \<open>JSONDecodeError\<close> with message \<open>e\<close>, \<open>validate_json\<close> and
  \<open>validate_cloudevent\<close> both raise \<open>ContractValidationError\<close> with the message
  "Invalid JSON payload: e", whatever the schema name or wire type, and
  \<open>get_validation_errors\<close> returns normally a list of exactly one entry, with
  empty paths and the message "Invalid JSON: e". For a text on which
  \<open>json.loads\<close> raises any other exception with message \<open>e\<close>, the two
  fail-fast methods raise \<open>ContractValidationError\<close> with the message "Unexpected
  validation error: e" and \<open>get_validation_errors\<close> returns the single entry with
  the message "Validation error: e". In neither case are the caches or the
  filesystem touched.
\<close>

theorem json_text_rejected:
  "(\<forall>e. json_loads lib s = Inl (Malformed e) \<longrightarrow>
       validate_json lib (Text s) schema_name vw =
         (Inl (ContractValidationError (''Invalid JSON payload: '' @ e)), vw)
     \<and> validate_cloudevent lib (Text s) type_name vw =
         (Inl (ContractValidationError (''Invalid JSON payload: '' @ e)), vw)
     \<and> get_validation_errors lib (Text s) schema_name schema_type vw =
         (Inr [error_entry [] (''Invalid JSON: '' @ e) []], vw))
 \<and> (\<forall>e. json_loads lib s = Inl (Aborted e) \<longrightarrow>
       validate_json lib (Text s) schema_name vw =
         (Inl (ContractValidationError (''Unexpected validation error: '' @ e)), vw)
     \<and> validate_cloudevent lib (Text s) type_name vw =
         (Inl (ContractValidationError (''Unexpected validation error: '' @ e)), vw)
     \<and> get_validation_errors lib (Text s) schema_name schema_type vw =
         (Inr [error_entry [] (''Validation error: '' @ e) []], vw))"
  by (simp add: validate_json_def validate_json_body_def validate_cloudevent_def
      validate_cloudevent_body_def get_validation_errors_def
      get_validation_errors_body_def parse_payload_def)

theorem json_text_rejected_witness:
  "json_loads example_lib ''{'' = Inl (Malformed ''Expecting value'')
   \<and> validate_json example_lib (Text ''{'') ''any'' (example_validator, example_world) =
       (Inl (ContractValidationError ''Invalid JSON payload: Expecting value''),
        (example_validator, example_world))
   \<and> validate_cloudevent example_lib (Text ''{'') ''ocn.orca.decision.v1''
        (example_validator, example_world) =
       (Inl (ContractValidationError ''Invalid JSON payload: Expecting value''),
        (example_validator, example_world))
   \<and> get_validation_errors example_lib (Text ''{'') ''any'' ''mandates''
        (example_validator, example_world) =
       (Inr [[(''path'', []), (''message'', ''Invalid JSON: Expecting value''),
              (''schema_path'', [])]],
        (example_validator, example_world))
   \<and> json_loads example_lib (replicate 5000 CHR ''['') =
       Inl (Aborted ''maximum recursion depth exceeded'')
   \<and> get_validation_errors example_lib (Text (replicate 5000 CHR ''['')) ''any''
        ''mandates'' (example_validator, example_world) =
       (Inr [[(''path'', []),
              (''message'', ''Validation error: maximum recursion depth exceeded''),
              (''schema_path'', [])]],
        (example_validator, example_world))"
proof -
  have a: "json_loads example_lib ''{'' = Inl (Malformed ''Expecting value'')"
    by (simp add: example_lib_def example_texts)
  have b: "json_loads example_lib (replicate 5000 CHR ''['') =
       Inl (Aborted ''maximum recursion depth exceeded'')"
    by (simp add: example_lib_def example_texts)
  show ?thesis
    using a b
      json_text_rejected [of example_lib "''{''" "''any''"
        "(example_validator, example_world)" "''ocn.orca.decision.v1''" "''mandates''"]
      json_text_rejected [of example_lib "replicate 5000 CHR ''[''" "''any''"
        "(example_validator, example_world)" "''ocn.orca.decision.v1''" "''mandates''"]
    by (simp add: error_entry_def)
qed

section \<open>Concrete runs of the small installation\<close>

lemmas example_defs =
  get_validator_def get_schema_def load_schema_def store_schema_def
  cache_key_def mandates_dir_def joinpath_def example_validator_def
  example_loader_def example_world_def example_files_def example_lib_def example_texts
  events_dir_def parse_path_def parse_root_def str_path_def

lemma example_parse: "parse_payload example_lib (Text ''{}'') = Inr ''{}''"
  by (simp add: parse_payload_def example_lib_def example_texts)

lemma example_iter_none:
  "iter_errors example_lib ''false'' ''{}'' = Run [example_violation ''{}''] None"
  by (simp add: example_lib_def example_texts)

lemma example_iter_any: "iter_errors example_lib ''true'' ''{}'' = Run [] None"
  by (simp add: example_lib_def example_texts)

lemma example_parse_scores:
  "parse_payload example_lib (Text scores_instance) = Inr scores_instance"
  by (simp add: parse_payload_def example_lib_def example_texts)

lemma example_parse_dangling:
  "parse_payload example_lib (Text dangling_instance) = Inr dangling_instance"
  by (simp add: parse_payload_def example_lib_def example_texts)

lemma example_iter_scores:
  "iter_errors example_lib scores_schema scores_instance =
     Run
       [maximum_violation ''2'' [Key ''scores'', Idx 1]
          [Key ''properties'', Key ''scores'', Key ''items'', Key ''maximum''],
        maximum_violation ''3'' [Key ''scores'', Idx 2]
          [Key ''properties'', Key ''scores'', Key ''items'', Key ''maximum'']]
       None"
  by (simp add: example_lib_def example_texts)

lemma example_iter_dangling:
  "iter_errors example_lib dangling_schema dangling_instance =
     Run [maximum_violation ''2'' [Key ''a'']
            [Key ''properties'', Key ''a'', Key ''maximum'']]
       (Some ''Unresolvable: #/nope'')"
  by (simp add: example_lib_def example_texts)

lemma example_get_validator_scores:
  "get_validator example_lib ''scores'' ''mandates'' (example_validator, example_world) =
     (Inr (Draft202012Validator scores_schema),
      \<lparr>schema_loader =
         example_loader\<lparr>schemas_cache := [''mandates/scores'' \<mapsto> scores_schema]\<rparr>,
       validators_cache = [''mandates/scores'' \<mapsto> Draft202012Validator scores_schema]\<rparr>,
      \<lparr>files = example_files, listing = example_listing,
       opened = [''/repo/common/mandates/scores.schema.json'']\<rparr>)"
  by (simp add: example_defs)

lemma example_get_validator_dangling:
  "get_validator example_lib ''dangling'' ''mandates'' (example_validator, example_world) =
     (Inr (Draft202012Validator dangling_schema),
      \<lparr>schema_loader =
         example_loader\<lparr>schemas_cache := [''mandates/dangling'' \<mapsto> dangling_schema]\<rparr>,
       validators_cache =
         [''mandates/dangling'' \<mapsto> Draft202012Validator dangling_schema]\<rparr>,
      \<lparr>files = example_files, listing = example_listing,
       opened = [''/repo/common/mandates/dangling.schema.json'']\<rparr>)"
  by (simp add: example_defs)

lemma example_get_validator_none:
  "get_validator example_lib ''none'' ''mandates'' (example_validator, example_world) =
     (Inr (Draft202012Validator ''false''),
      \<lparr>schema_loader =
         example_loader\<lparr>schemas_cache := [''mandates/none'' \<mapsto> ''false'']\<rparr>,
       validators_cache = [''mandates/none'' \<mapsto> Draft202012Validator ''false'']\<rparr>,
      \<lparr>files = example_files, listing = example_listing,
       opened = [''/repo/common/mandates/none.schema.json'']\<rparr>)"
  by (simp add: example_defs)

lemma example_get_validator_any:
  "get_validator example_lib ''any'' ''mandates'' (example_validator, example_world) =
     (Inr (Draft202012Validator ''true''),
      \<lparr>schema_loader =
         example_loader\<lparr>schemas_cache := [''mandates/any'' \<mapsto> ''true'']\<rparr>,
       validators_cache = [''mandates/any'' \<mapsto> Draft202012Validator ''true'']\<rparr>,
      \<lparr>files = example_files, listing = example_listing,
       opened = [''/repo/common/mandates/any.schema.json'']\<rparr>)"
  by (simp add: example_defs)

lemma example_get_validator_nope:
  "get_validator example_lib ''nope'' ''mandates'' (example_validator, example_world) =
     (Inl (ContractValidationError
        ''Schema not found at /repo/common/mandates/nope.schema.json''),
      example_validator,
      example_world\<lparr>opened := [''/repo/common/mandates/nope.schema.json'']\<rparr>)"
  by (simp add: example_defs)

lemma example_get_validator_bad:
  "get_validator example_lib ''bad'' ''mandates'' (example_validator, example_world) =
     (Inl (SchemaError ''1 is not a schema''),
      example_validator,
      example_world\<lparr>opened := [''/repo/common/mandates/bad.schema.json'']\<rparr>)"
  by (simp add: example_defs)

lemma example_get_validator_bogus:
  "get_validator example_lib ''any'' ''bogus'' (example_validator, example_world) =
     (Inl (ContractValidationError ''Unknown schema type: bogus''),
      example_validator, example_world)"
  by (simp add: example_defs)

section \<open>Fail-fast validation of mandate payloads\<close>

lemma validate_first:
  "iter_errors lib (schema_of vd) j = Run (e # es) r \<Longrightarrow>
     validate lib vd j = Inl (ValidationError e)"
  by (simp add: validate_def)

lemma validate_none:
  "iter_errors lib (schema_of vd) j = Run [] None \<Longrightarrow> validate lib vd j = Inr ()"
  by (simp add: validate_def)

lemma validate_ok_iff:
  "(validate lib vd j = Inr ()) = (iter_errors lib (schema_of vd) j = Run [] None)"
  by (auto simp: validate_def split: run.splits list.splits option.splits)

text \<open>
  Claim C5. The payload parses to \<open>j\<close> and the validator of the mandate schema
  \<open>schema_name\<close> is obtained (from the cache or by loading). If checking \<open>j\<close>
  yields at least one violation, \<open>validate_json\<close> raises
  \<open>ContractValidationError\<close> whose message is built from the schema name and the
  message of the first violation alone: the later violations \<open>es\<close> and whatever
  the iteration would do after them play no part. If checking yields no violation,
  \<open>validate_json\<close> returns \<open>True\<close>.
\<close>

theorem validate_json_fail_fast:
  assumes "parse_payload lib payload = Inr j"
    and "get_validator lib schema_name ''mandates'' vw = (Inr vd, vw')"
  shows "(\<forall>e es r. iter_errors lib (schema_of vd) j = Run (e # es) r \<longrightarrow>
            validate_json lib payload schema_name vw =
              (Inl (ContractValidationError
                 (''Validation failed for schema '' @ [CHR 0x27] @ schema_name
                    @ [CHR 0x27] @ '': '' @ message e)), vw'))
       \<and> (iter_errors lib (schema_of vd) j = Run [] None \<longrightarrow>
            validate_json lib payload schema_name vw = (Inr True, vw'))"
  using assms
  by (cases vw') (simp add: validate_json_def validate_json_body_def apply_validator_def
      validate_first validate_none)

theorem validate_json_fail_fast_witness:
  "parse_payload example_lib (Text ''{}'') = Inr ''{}''
   \<and> fst (get_validator example_lib ''none'' ''mandates''
          (example_validator, example_world)) = Inr (Draft202012Validator ''false'')
   \<and> fst (get_validator example_lib ''any'' ''mandates''
          (example_validator, example_world)) = Inr (Draft202012Validator ''true'')
   \<and> fst (validate_json example_lib (Text ''{}'') ''none''
          (example_validator, example_world)) =
       Inl (ContractValidationError
         (''Validation failed for schema '' @ [CHR 0x27] @ ''none'' @ [CHR 0x27]
            @ '': False schema does not allow {}''))
   \<and> fst (validate_json example_lib (Text ''{}'') ''any''
          (example_validator, example_world)) = Inr True"
  using validate_json_fail_fast [OF example_parse example_get_validator_none]
    validate_json_fail_fast [OF example_parse example_get_validator_any]
  by (simp add: example_parse example_get_validator_none example_get_validator_any
      example_iter_none example_iter_any example_violation_def)

section \<open>Aggregated diagnostics\<close>

lemma apply_validator_true_iff:
  "(fst (apply_validator lib j (Inr vd, vw')) = Inr True) =
     (iter_errors lib (schema_of vd) j = Run [] None)"
  by (cases vw') (auto simp: apply_validator_def validate_ok_iff [symmetric] split: sum.splits)

lemma collect_errors_empty_iff:
  "(fst (collect_errors lib j (Inr vd, vw')) = Inr []) =
     (iter_errors lib (schema_of vd) j = Run [] None)"
  by (cases vw') (auto simp: collect_errors_def split: run.splits option.splits)

lemma get_validation_errors_except_nonempty:
  "get_validation_errors_except e \<noteq> Inr []"
  by (cases e) simp_all

lemma validate_json_ok:
  "(fst (validate_json lib payload schema_name vw) = Inr b) =
     (fst (validate_json_body lib payload schema_name vw) = Inr b)"
proof -
  obtain r vw' where "validate_json_body lib payload schema_name vw = (r, vw')"
    by (cases "validate_json_body lib payload schema_name vw") auto
  then show ?thesis by (cases r) (simp_all add: validate_json_def)
qed

lemma get_validation_errors_ok:
  "(fst (get_validation_errors lib payload schema_name schema_type vw) = Inr []) =
     (fst (get_validation_errors_body lib payload schema_name schema_type vw) = Inr [])"
proof -
  obtain r vw' where
    "get_validation_errors_body lib payload schema_name schema_type vw = (r, vw')"
    by (cases "get_validation_errors_body lib payload schema_name schema_type vw") auto
  then show ?thesis
    by (cases r)
       (simp_all add: get_validation_errors_def get_validation_errors_except_nonempty)
qed

lemma validate_json_true_iff:
  assumes "get_validator lib schema_name ''mandates'' vw = (Inr vd, vw')"
  shows "(fst (validate_json lib payload schema_name vw) = Inr True) =
     (\<exists>j. parse_payload lib payload = Inr j
          \<and> iter_errors lib (schema_of vd) j = Run [] None)"
proof (cases "parse_payload lib payload")
  case (Inl e)
  then show ?thesis by (simp add: validate_json_ok validate_json_body_def)
next
  case (Inr j)
  then show ?thesis
    by (simp add: validate_json_ok validate_json_body_def assms apply_validator_true_iff)
qed

lemma get_validation_errors_empty_iff:
  assumes "get_validator lib schema_name schema_type vw = (Inr vd, vw')"
  shows "(fst (get_validation_errors lib payload schema_name schema_type vw) = Inr []) =
     (\<exists>j. parse_payload lib payload = Inr j
          \<and> iter_errors lib (schema_of vd) j = Run [] None)"
proof (cases "parse_payload lib payload")
  case (Inl e)
  then show ?thesis
    by (simp add: get_validation_errors_ok get_validation_errors_body_def)
next
  case (Inr j)
  then show ?thesis
    by (simp add: get_validation_errors_ok get_validation_errors_body_def assms
        collect_errors_empty_iff)
qed

lemma get_validation_errors_all:
  assumes "get_validator lib schema_name schema_type vw = (Inr vd, vw')"
    and "parse_payload lib payload = Inr j"
    and "iter_errors lib (schema_of vd) j = Run es None"
  shows "get_validation_errors lib payload schema_name schema_type vw =
     (Inr (map violation_entry es), vw')"
  using assms
  by (cases vw') (simp add: get_validation_errors_def get_validation_errors_body_def
      collect_errors_def)

lemma get_validation_errors_raised:
  assumes "get_validator lib schema_name schema_type vw = (Inr vd, vw')"
    and "parse_payload lib payload = Inr j"
    and "iter_errors lib (schema_of vd) j = Run es (Some x)"
  shows "get_validation_errors lib payload schema_name schema_type vw =
     (Inr [error_entry [] (''Validation error: '' @ x) []], vw')"
  using assms
  by (cases vw') (simp add: get_validation_errors_def get_validation_errors_body_def
      collect_errors_def)

text \<open>
  Claim C7, as stated, fails in its second half. The schema \<open>dangling\<close> loads;
  checking the instance yields the violation of property \<open>a\<close> and then raises
  on the unresolvable reference. \<open>validate_json\<close> reports that violation, but
  \<open>get_validation_errors\<close> returns only the entry made from the exception: the
  violation that was yielded is not in its result.
\<close>

theorem raising_iteration_drops_violations:
  "iter_errors example_lib dangling_schema dangling_instance =
     Run [maximum_violation ''2'' [Key ''a'']
            [Key ''properties'', Key ''a'', Key ''maximum'']]
       (Some ''Unresolvable: #/nope'')
   \<and> fst (get_validator example_lib ''dangling'' ''mandates''
          (example_validator, example_world)) =
       Inr (Draft202012Validator dangling_schema)
   \<and> fst (validate_json example_lib (Text dangling_instance) ''dangling''
          (example_validator, example_world)) =
       Inl (ContractValidationError
         (''Validation failed for schema '' @ [CHR 0x27] @ ''dangling'' @ [CHR 0x27]
            @ '': 2 is greater than the maximum of 1''))
   \<and> fst (get_validation_errors example_lib (Text dangling_instance) ''dangling''
          ''mandates'' (example_validator, example_world)) =
       Inr [[(''path'', []), (''message'', ''Validation error: Unresolvable: #/nope''),
             (''schema_path'', [])]]"
  by (simp add: example_iter_dangling example_parse_dangling example_get_validator_dangling
      validate_json_def validate_json_body_def apply_validator_def validate_def
      get_validation_errors_def get_validation_errors_body_def collect_errors_def
      error_entry_def maximum_violation_def)

text \<open>
  Claim C7, amended. The validator of the mandate schema is obtained. Then, from
  the same state and for every payload (a text that does not parse included),
  \<open>validate_json\<close> returns \<open>True\<close> exactly when \<open>get_validation_errors\<close>
  returns the empty list. When the payload parses and the iteration over the
  violations \<open>es\<close> completes, \<open>get_validation_errors\<close> returns one entry for
  each of them, in order, holding its dotted JSON path, its message and its dotted
  schema path. When the iteration raises after yielding \<open>es\<close>,
  \<open>get_validation_errors\<close> returns the single entry made from the exception.
\<close>

theorem fail_fast_agrees_with_aggregating:
  assumes "get_validator lib schema_name ''mandates'' vw = (Inr vd, vw')"
  shows "((fst (validate_json lib payload schema_name vw) = Inr True) =
          (fst (get_validation_errors lib payload schema_name ''mandates'' vw) = Inr []))
       \<and> (\<forall>j es. parse_payload lib payload = Inr j \<longrightarrow>
             iter_errors lib (schema_of vd) j = Run es None \<longrightarrow>
             get_validation_errors lib payload schema_name ''mandates'' vw =
               (Inr (map (\<lambda>error.
                      [(''path'', join ''.'' (map str_pelem (path error))),
                       (''message'', message error),
                       (''schema_path'', join ''.'' (map str_pelem (schema_path error)))])
                    es), vw'))
       \<and> (\<forall>j es x. parse_payload lib payload = Inr j \<longrightarrow>
             iter_errors lib (schema_of vd) j = Run es (Some x) \<longrightarrow>
             get_validation_errors lib payload schema_name ''mandates'' vw =
               (Inr [[(''path'', []), (''message'', ''Validation error: '' @ x),
                      (''schema_path'', [])]], vw'))"
proof (intro conjI)
  show "(fst (validate_json lib payload schema_name vw) = Inr True) =
          (fst (get_validation_errors lib payload schema_name ''mandates'' vw) = Inr [])"
    by (simp only: validate_json_true_iff [OF assms]
        get_validation_errors_empty_iff [OF assms])
next
  have "violation_entry = (\<lambda>error.
          [(''path'', join ''.'' (map str_pelem (path error))),
           (''message'', message error),
           (''schema_path'', join ''.'' (map str_pelem (schema_path error)))])"
    by (rule ext) (simp add: violation_entry_def error_entry_def)
  then show "\<forall>j es. parse_payload lib payload = Inr j \<longrightarrow>
             iter_errors lib (schema_of vd) j = Run es None \<longrightarrow>
             get_validation_errors lib payload schema_name ''mandates'' vw =
               (Inr (map (\<lambda>error.
                      [(''path'', join ''.'' (map str_pelem (path error))),
                       (''message'', message error),
                       (''schema_path'', join ''.'' (map str_pelem (schema_path error)))])
                    es), vw')"
    using get_validation_errors_all [OF assms] by simp
next
  show "\<forall>j es x. parse_payload lib payload = Inr j \<longrightarrow>
             iter_errors lib (schema_of vd) j = Run es (Some x) \<longrightarrow>
             get_validation_errors lib payload schema_name ''mandates'' vw =
               (Inr [[(''path'', []), (''message'', ''Validation error: '' @ x),
                      (''schema_path'', [])]], vw')"
    using get_validation_errors_raised [OF assms] by (simp add: error_entry_def)
qed

theorem fail_fast_agrees_with_aggregating_witness:
  "fst (get_validator example_lib ''scores'' ''mandates''
          (example_validator, example_world)) = Inr (Draft202012Validator scores_schema)
   \<and> fst (get_validator example_lib ''any'' ''mandates''
          (example_validator, example_world)) = Inr (Draft202012Validator ''true'')
   \<and> fst (get_validator example_lib ''dangling'' ''mandates''
          (example_validator, example_world)) =
       Inr (Draft202012Validator dangling_schema)
   \<and> fst (validate_json example_lib (Text scores_instance) ''scores''
          (example_validator, example_world)) \<noteq> Inr True
   \<and> fst (get_validation_errors example_lib (Text scores_instance) ''scores''
          ''mandates'' (example_validator, example_world)) =
       Inr [[(''path'', ''scores.1''),
             (''message'', ''2 is greater than the maximum of 1''),
             (''schema_path'', ''properties.scores.items.maximum'')],
            [(''path'', ''scores.2''),
             (''message'', ''3 is greater than the maximum of 1''),
             (''schema_path'', ''properties.scores.items.maximum'')]]
   \<and> fst (validate_json example_lib (Text ''{}'') ''any''
          (example_validator, example_world)) = Inr True
   \<and> fst (get_validation_errors example_lib (Text ''{}'') ''any'' ''mandates''
          (example_validator, example_world)) = Inr []
   \<and> fst (validate_json example_lib (Text dangling_instance) ''dangling''
          (example_validator, example_world)) \<noteq> Inr True
   \<and> fst (get_validation_errors example_lib (Text dangling_instance) ''dangling''
          ''mandates'' (example_validator, example_world)) =
       Inr [[(''path'', []), (''message'', ''Validation error: Unresolvable: #/nope''),
             (''schema_path'', [])]]"
  using
    fail_fast_agrees_with_aggregating [OF example_get_validator_scores,
      of "Text scores_instance"]
    fail_fast_agrees_with_aggregating [OF example_get_validator_any, of "Text ''{}''"]
    fail_fast_agrees_with_aggregating [OF example_get_validator_dangling,
      of "Text dangling_instance"]
  by (simp add: example_parse example_parse_scores example_parse_dangling
      example_get_validator_scores example_get_validator_any
      example_get_validator_dangling example_iter_scores example_iter_any
      example_iter_dangling maximum_violation_def)

section \<open>\<open>get_validation_errors\<close> never raises\<close>

lemma load_schema_no_decode_error:
  "fst (load_schema lib p w) \<noteq> Inl (JSONDecodeError x)"
  by (simp add: load_schema_def Let_def split: read_result.splits sum.splits option.splits json_failure.splits)

lemma get_schema_no_decode_error:
  "fst (get_schema lib n t lw) \<noteq> Inl (JSONDecodeError x)"
proof -
  have "fst (store_schema l k rw) = fst rw" for l :: "'a SchemaLoader" and k rw
    by (cases rw; cases "fst rw") (simp_all add: store_schema_def)
  then show ?thesis
    by (cases lw) (simp add: get_schema_def load_schema_no_decode_error split: option.splits)
qed

lemma get_validator_no_decode_error:
  "fst (get_validator lib n t vw) \<noteq> Inl (JSONDecodeError x)"
  using get_schema_no_decode_error [of lib n t "(schema_loader (fst vw), snd vw)" x]
  by (cases vw) (auto simp: get_validator_def split: option.splits prod.splits sum.splits)

text \<open>
  Claim C10. For every library, payload, schema name, schema type and state,
  \<open>get_validation_errors\<close> returns a list and raises nothing. Every exception
  raised inside its \<open>try\<close> block becomes a list of exactly one entry with empty
  paths. In particular, when the payload parses and obtaining the validator fails
  with the exception \<open>e\<close> (schema file not found, schema not valid, unknown schema
  type), the result is the single entry whose message is "Validation error: "
  followed by \<open>str(e)\<close>.
\<close>

theorem get_validation_errors_total:
  "(\<exists>errors vw'. get_validation_errors lib payload schema_name schema_type vw =
        (Inr errors, vw'))
   \<and> (\<forall>e vw'. get_validation_errors_body lib payload schema_name schema_type vw =
          (Inl e, vw') \<longrightarrow>
        (\<exists>m. get_validation_errors lib payload schema_name schema_type vw =
          (Inr [error_entry [] m []], vw')))
   \<and> (\<forall>j e vw'. parse_payload lib payload = Inr j \<longrightarrow>
        get_validator lib schema_name schema_type vw = (Inl e, vw') \<longrightarrow>
        get_validation_errors lib payload schema_name schema_type vw =
          (Inr [error_entry [] (''Validation error: '' @ str_exn e) []], vw'))"
proof (intro conjI allI impI)
  show "\<exists>errors vw'. get_validation_errors lib payload schema_name schema_type vw =
        (Inr errors, vw')"
  proof -
    obtain r vw' where
      b: "get_validation_errors_body lib payload schema_name schema_type vw = (r, vw')"
      by (cases "get_validation_errors_body lib payload schema_name schema_type vw") auto
    show ?thesis
    proof (cases r)
      case (Inl e)
      with b show ?thesis by (cases e) (simp_all add: get_validation_errors_def)
    next
      case (Inr es)
      with b show ?thesis by (simp add: get_validation_errors_def)
    qed
  qed
next
  fix e vw'
  assume "get_validation_errors_body lib payload schema_name schema_type vw = (Inl e, vw')"
  then show "\<exists>m. get_validation_errors lib payload schema_name schema_type vw =
          (Inr [error_entry [] m []], vw')"
    by (cases e) (auto simp: get_validation_errors_def)
next
  fix j e vw'
  assume p: "parse_payload lib payload = Inr j"
    and g: "get_validator lib schema_name schema_type vw = (Inl e, vw')"
  have body: "get_validation_errors_body lib payload schema_name schema_type vw = (Inl e, vw')"
    using p g by (cases vw') (simp add: get_validation_errors_body_def collect_errors_def)
  have ne: "e \<noteq> JSONDecodeError x" for x
    using get_validator_no_decode_error [of lib schema_name schema_type vw x] g by auto
  show "get_validation_errors lib payload schema_name schema_type vw =
          (Inr [error_entry [] (''Validation error: '' @ str_exn e) []], vw')"
  proof (cases e)
    case (JSONDecodeError x)
    with ne show ?thesis by blast
  qed (simp_all add: body get_validation_errors_def)
qed

theorem get_validation_errors_total_witness:
  "parse_payload example_lib (Text ''{}'') = Inr ''{}''
   \<and> fst (get_validator example_lib ''nope'' ''mandates''
          (example_validator, example_world)) =
       Inl (ContractValidationError
          ''Schema not found at /repo/common/mandates/nope.schema.json'')
   \<and> fst (get_validation_errors example_lib (Text ''{}'') ''nope'' ''mandates''
          (example_validator, example_world)) =
       Inr [[(''path'', []),
             (''message'',
              ''Validation error: Schema not found at /repo/common/mandates/nope.schema.json''),
             (''schema_path'', [])]]
   \<and> fst (get_validator example_lib ''bad'' ''mandates''
          (example_validator, example_world)) = Inl (SchemaError ''1 is not a schema'')
   \<and> fst (get_validation_errors example_lib (Text ''{}'') ''bad'' ''mandates''
          (example_validator, example_world)) =
       Inr [[(''path'', []), (''message'', ''Validation error: 1 is not a schema''),
             (''schema_path'', [])]]
   \<and> fst (get_validator example_lib ''any'' ''bogus''
          (example_validator, example_world)) =
       Inl (ContractValidationError ''Unknown schema type: bogus'')
   \<and> fst (get_validation_errors example_lib (Text ''{}'') ''any'' ''bogus''
          (example_validator, example_world)) =
       Inr [[(''path'', []), (''message'', ''Validation error: Unknown schema type: bogus''),
             (''schema_path'', [])]]"
  using get_validation_errors_total [of example_lib "Text ''{}''" "''nope''" "''mandates''"
      "(example_validator, example_world)"]
    get_validation_errors_total [of example_lib "Text ''{}''" "''bad''" "''mandates''"
      "(example_validator, example_world)"]
    get_validation_errors_total [of example_lib "Text ''{}''" "''any''" "''bogus''"
      "(example_validator, example_world)"]
  by (simp add: example_parse example_get_validator_nope example_get_validator_bad
      example_get_validator_bogus error_entry_def)

section \<open>The schema cache and the validator cache\<close>

lemma load_schema_world:
  "snd (load_schema lib p w) = w\<lparr>opened := opened w @ [str_path p]\<rparr>"
  by (simp add: load_schema_def Let_def split: read_result.splits sum.splits option.splits json_failure.splits)

lemma load_schema_result:
  "files w2 = files w \<Longrightarrow> fst (load_schema lib p w2) = fst (load_schema lib p w)"
  by (simp add: load_schema_def Let_def split: read_result.splits sum.splits option.splits json_failure.splits)

lemma store_schema_fst: "fst (store_schema l k rw) = fst rw"
  by (cases rw; cases "fst rw") (simp_all add: store_schema_def)

lemma store_schema_world: "snd (snd (store_schema l k rw)) = snd rw"
  by (cases rw; cases "fst rw") (simp_all add: store_schema_def)

lemma store_schema_Inl:
  "store_schema l k rw = (Inl e, l', w') \<Longrightarrow> l' = l \<and> rw = (Inl e, w')"
  by (cases rw; cases "fst rw") (auto simp: store_schema_def)

lemma store_schema_Inr:
  "store_schema l k rw = (Inr s, l', w') \<Longrightarrow>
     l' = l\<lparr>schemas_cache := (schemas_cache l)(k \<mapsto> s)\<rparr> \<and> rw = (Inr s, w')"
  by (cases rw; cases "fst rw") (auto simp: store_schema_def)

lemma get_schema_hit:
  "schemas_cache l (cache_key t n) = Some s \<Longrightarrow> get_schema lib n t (l, w) = (Inr s, l, w)"
  by (simp add: get_schema_def)

lemma get_schema_miss:
  assumes "schemas_cache l (cache_key t n) = None" and "t = ''mandates'' \<or> t = ''events''"
  shows "get_schema lib n t (l, w) =
     store_schema l (cache_key t n) (load_schema lib (schema_file l n t) w)"
  using assms by (auto simp: get_schema_def schema_file_def)

lemma get_schema_unknown:
  assumes "schemas_cache l (cache_key t n) = None" and "t \<noteq> ''mandates''" and "t \<noteq> ''events''"
  shows "get_schema lib n t (l, w) =
     (Inl (ContractValidationError (''Unknown schema type: '' @ t)), l, w)"
  using assms by (simp add: get_schema_def)

lemma get_schema_Inl:
  assumes "get_schema lib n t (l, w) = (Inl e, l1, w1)"
  shows "l1 = l \<and> schemas_cache l (cache_key t n) = None
       \<and> (if t = ''mandates'' \<or> t = ''events''
          then w1 = w\<lparr>opened := opened w @ [str_path (schema_file l n t)]\<rparr>
             \<and> fst (load_schema lib (schema_file l n t) w) = Inl e
          else w1 = w)"
proof (cases "schemas_cache l (cache_key t n)")
  case (Some s)
  with assms show ?thesis by (simp add: get_schema_hit)
next
  case None
  show ?thesis
  proof (cases "t = ''mandates'' \<or> t = ''events''")
    case True
    from assms have "store_schema l (cache_key t n) (load_schema lib (schema_file l n t) w)
        = (Inl e, l1, w1)"
      by (simp add: get_schema_miss [OF None True])
    from store_schema_Inl [OF this]
    have l1: "l1 = l" and ld: "load_schema lib (schema_file l n t) w = (Inl e, w1)"
      by simp_all
    from ld load_schema_world [of lib "schema_file l n t" w]
    have w1: "w1 = w\<lparr>opened := opened w @ [str_path (schema_file l n t)]\<rparr>" by simp
    from ld have "fst (load_schema lib (schema_file l n t) w) = Inl e" by simp
    with l1 w1 None show ?thesis by (simp only: True if_True simp_thms)
  next
    case False
    with assms None show ?thesis by (simp add: get_schema_unknown)
  qed
qed

lemma get_schema_Inr:
  assumes "get_schema lib n t (l, w) = (Inr s, l1, w1)"
  shows "schemas_cache l1 (cache_key t n) = Some s
       \<and> (w1 = w \<or> w1 = w\<lparr>opened := opened w @ [str_path (schema_file l n t)]\<rparr>)"
proof (cases "schemas_cache l (cache_key t n)")
  case (Some s')
  with assms show ?thesis by (simp add: get_schema_hit)
next
  case None
  show ?thesis
  proof (cases "t = ''mandates'' \<or> t = ''events''")
    case True
    from assms have "store_schema l (cache_key t n) (load_schema lib (schema_file l n t) w)
        = (Inr s, l1, w1)"
      by (simp add: get_schema_miss [OF None True])
    from store_schema_Inr [OF this]
    have l1: "l1 = l\<lparr>schemas_cache := (schemas_cache l)(cache_key t n \<mapsto> s)\<rparr>"
      and ld: "load_schema lib (schema_file l n t) w = (Inr s, w1)"
      by simp_all
    from ld load_schema_world [of lib "schema_file l n t" w]
    have w1: "w1 = w\<lparr>opened := opened w @ [str_path (schema_file l n t)]\<rparr>" by simp
    from l1 have "schemas_cache l1 (cache_key t n) = Some s" by simp
    with w1 show ?thesis by blast
  next
    case False
    with assms None show ?thesis by (simp add: get_schema_unknown)
  qed
qed

lemma get_schema_retry_world:
  assumes "schemas_cache l (cache_key t n) = None" and "t = ''mandates'' \<or> t = ''events''"
  shows "snd (snd (get_schema lib n t (l, w2))) =
     w2\<lparr>opened := opened w2 @ [str_path (schema_file l n t)]\<rparr>"
  by (simp add: get_schema_miss [OF assms] store_schema_world load_schema_world)

lemma get_schema_retry_result:
  assumes "schemas_cache l (cache_key t n) = None" and "t = ''mandates'' \<or> t = ''events''"
    and "files w2 = files w"
  shows "fst (get_schema lib n t (l, w2)) = fst (get_schema lib n t (l, w))"
proof -
  have "fst (load_schema lib (schema_file l n t) w2) =
        fst (load_schema lib (schema_file l n t) w)"
    using assms(3) by (rule load_schema_result)
  then show ?thesis
    by (simp add: get_schema_miss [OF assms(1,2)] store_schema_fst)
qed

lemma get_validator_hit:
  "validators_cache v (cache_key t n) = Some vd \<Longrightarrow>
     get_validator lib n t (v, w) = (Inr vd, v, w)"
  by (simp add: get_validator_def)

lemma get_validator_miss:
  assumes "validators_cache v (cache_key t n) = None"
    and "get_schema lib n t (schema_loader v, w) = (r, l1, w1)"
  shows "get_validator lib n t (v, w) =
     (case r of
        Inl e \<Rightarrow> (Inl e, v\<lparr>schema_loader := l1\<rparr>, w1)
      | Inr s \<Rightarrow>
          (Inr (Draft202012Validator s),
           v\<lparr>schema_loader := l1,
             validators_cache :=
               (validators_cache v)(cache_key t n \<mapsto> Draft202012Validator s)\<rparr>, w1))"
  using assms by (cases r) (simp_all add: get_validator_def)

lemma get_validator_Inl:
  assumes "get_validator lib n t (v, w) = (Inl e, v1, w1)"
  shows "v1 = v \<and> validators_cache v (cache_key t n) = None
       \<and> get_schema lib n t (schema_loader v, w) = (Inl e, schema_loader v, w1)"
proof (cases "validators_cache v (cache_key t n)")
  case (Some vd)
  with assms show ?thesis by (simp add: get_validator_hit)
next
  case None
  obtain r l1 w' where g: "get_schema lib n t (schema_loader v, w) = (r, l1, w')"
    by (cases "get_schema lib n t (schema_loader v, w)") auto
  show ?thesis
  proof (cases r)
    case (Inl e')
    with assms get_validator_miss [OF None g]
    have eq: "e' = e" "v1 = v\<lparr>schema_loader := l1\<rparr>" "w' = w1" by auto
    from g Inl eq have g': "get_schema lib n t (schema_loader v, w) = (Inl e, l1, w1)"
      by simp
    from get_schema_Inl [OF g'] have "l1 = schema_loader v" by simp
    with eq g' None show ?thesis by simp
  next
    case (Inr s)
    with assms get_validator_miss [OF None g] show ?thesis by simp
  qed
qed

lemma get_validator_Inr:
  assumes "get_validator lib n t (v, w) = (Inr vd, v1, w1)"
  shows "validators_cache v1 (cache_key t n) = Some vd
       \<and> (w1 = w \<or> w1 = w\<lparr>opened := opened w @ [str_path (schema_file (schema_loader v) n t)]\<rparr>)"
proof (cases "validators_cache v (cache_key t n)")
  case (Some vd')
  with assms show ?thesis by (simp add: get_validator_hit)
next
  case None
  obtain r l1 w' where g: "get_schema lib n t (schema_loader v, w) = (r, l1, w')"
    by (cases "get_schema lib n t (schema_loader v, w)") auto
  show ?thesis
  proof (cases r)
    case (Inl e')
    with assms get_validator_miss [OF None g] show ?thesis by simp
  next
    case (Inr s)
    with assms get_validator_miss [OF None g]
    have eq: "vd = Draft202012Validator s" "w' = w1"
      "v1 = v\<lparr>schema_loader := l1,
             validators_cache :=
               (validators_cache v)(cache_key t n \<mapsto> Draft202012Validator s)\<rparr>"
      by auto
    from g Inr eq have "get_schema lib n t (schema_loader v, w) = (Inr s, l1, w1)" by simp
    from get_schema_Inr [OF this]
    have "w1 = w \<or> w1 = w\<lparr>opened := opened w @ [str_path (schema_file (schema_loader v) n t)]\<rparr>"
      by simp
    moreover from eq have "validators_cache v1 (cache_key t n) = Some vd" by simp
    ultimately show ?thesis by simp
  qed
qed

lemma get_validator_retry:
  assumes "validators_cache v (cache_key t n) = None"
    and "schemas_cache (schema_loader v) (cache_key t n) = None"
    and "t = ''mandates'' \<or> t = ''events''"
  shows "snd (snd (get_validator lib n t (v, w2))) =
     w2\<lparr>opened := opened w2 @ [str_path (schema_file (schema_loader v) n t)]\<rparr>"
proof -
  obtain r l1 w' where g: "get_schema lib n t (schema_loader v, w2) = (r, l1, w')"
    by (cases "get_schema lib n t (schema_loader v, w2)") auto
  with get_schema_retry_world [OF assms(2,3), of lib w2]
  have "w' = w2\<lparr>opened := opened w2 @ [str_path (schema_file (schema_loader v) n t)]\<rparr>" by simp
  then show ?thesis
    by (cases r) (simp_all add: get_validator_miss [OF assms(1) g])
qed

lemma get_validator_fst:
  assumes "validators_cache v (cache_key t n) = None"
  shows "fst (get_validator lib n t (v, w)) =
     map_sum id Draft202012Validator (fst (get_schema lib n t (schema_loader v, w)))"
proof -
  obtain r l1 w' where g: "get_schema lib n t (schema_loader v, w) = (r, l1, w')"
    by (cases "get_schema lib n t (schema_loader v, w)") auto
  then show ?thesis
    by (cases r) (simp_all add: get_validator_miss [OF assms g])
qed

lemma get_schema_twice_ok:
  assumes "get_schema lib n t (l, w) = (Inr s, l1, w1)"
  shows "length (opened w1) \<le> length (opened w) + 1
       \<and> (\<forall>w2. get_schema lib n t (l1, w2) = (Inr s, l1, w2))"
  using get_schema_Inr [OF assms]
  by (auto simp: get_schema_hit)

lemma get_schema_twice_fail:
  assumes "get_schema lib n t (l, w) = (Inl e, l1, w1)"
  shows "l1 = l
       \<and> (\<forall>w2. files w2 = files w \<longrightarrow> fst (get_schema lib n t (l1, w2)) = Inl e)
       \<and> (t = ''mandates'' \<or> t = ''events'' \<longrightarrow>
            (\<forall>w2. \<exists>p. snd (snd (get_schema lib n t (l1, w2))) =
                    w2\<lparr>opened := opened w2 @ [p]\<rparr>))"
proof -
  from get_schema_Inl [OF assms]
  have l1: "l1 = l" and miss: "schemas_cache l (cache_key t n) = None" by simp_all
  have same: "fst (get_schema lib n t (l, w2)) = Inl e" if f: "files w2 = files w" for w2
  proof (cases "t = ''mandates'' \<or> t = ''events''")
    case True
    from get_schema_retry_result [OF miss True f, of lib] assms show ?thesis by simp
  next
    case False
    with assms miss show ?thesis by (simp add: get_schema_unknown)
  qed
  have again: "\<exists>p. snd (snd (get_schema lib n t (l, w2))) = w2\<lparr>opened := opened w2 @ [p]\<rparr>"
    if "t = ''mandates'' \<or> t = ''events''" for w2
    using get_schema_retry_world [OF miss that, of lib w2] by blast
  from l1 same again show ?thesis by blast
qed

lemma get_validator_twice_ok:
  assumes "get_validator lib n t (v, w) = (Inr vd, v1, w1)"
  shows "length (opened w1) \<le> length (opened w) + 1
       \<and> (\<forall>w2. get_validator lib n t (v1, w2) = (Inr vd, v1, w2))"
  using get_validator_Inr [OF assms]
  by (auto simp: get_validator_hit)

lemma get_validator_twice_fail:
  assumes "get_validator lib n t (v, w) = (Inl e, v1, w1)"
  shows "v1 = v
       \<and> (\<forall>w2. files w2 = files w \<longrightarrow> fst (get_validator lib n t (v1, w2)) = Inl e)
       \<and> (t = ''mandates'' \<or> t = ''events'' \<longrightarrow>
            (\<forall>w2. \<exists>p. snd (snd (get_validator lib n t (v1, w2))) =
                    w2\<lparr>opened := opened w2 @ [p]\<rparr>))"
proof -
  from get_validator_Inl [OF assms]
  have v1: "v1 = v" and miss: "validators_cache v (cache_key t n) = None"
    and g: "get_schema lib n t (schema_loader v, w) = (Inl e, schema_loader v, w1)"
    by simp_all
  from get_schema_Inl [OF g] have smiss: "schemas_cache (schema_loader v) (cache_key t n) = None"
    by simp
  have same: "fst (get_validator lib n t (v, w2)) = Inl e" if f: "files w2 = files w" for w2
    using get_schema_twice_fail [OF g] f by (simp add: get_validator_fst [OF miss])
  have again: "\<exists>p. snd (snd (get_validator lib n t (v, w2))) = w2\<lparr>opened := opened w2 @ [p]\<rparr>"
    if "t = ''mandates'' \<or> t = ''events''" for w2
    using get_validator_retry [OF miss smiss that, of lib w2] by blast
  from v1 same again show ?thesis by blast
qed

text \<open>
  Claim C2. \<open>get_schema\<close> and \<open>get_validator\<close> are called with an
  identifier (name \<open>n\<close>, type \<open>t\<close>), and then again with the same one.
  \<^item> If the first call returns a schema (a validator), it has opened at most one
    file, and the second call returns the same value and leaves the loader (the
    validator object) and the world as they are, whatever the filesystem now holds:
    it opens nothing, so both calls together open at most one file.
  \<^item> If the first call raises, the caches are as before the call: nothing was
    stored. A second call on an unchanged filesystem raises the same exception,
    and, when the type is one of the two known ones (the failure was a failed
    load), any later call opens the schema file again.
\<close>

theorem caching_idempotent:
  "(get_schema lib n t (l, w) = (Inr s, l1, w1) \<longrightarrow>
       length (opened w1) \<le> length (opened w) + 1
     \<and> (\<forall>w2. get_schema lib n t (l1, w2) = (Inr s, l1, w2)))
 \<and> (get_schema lib n t (l, w) = (Inl e, l1, w1) \<longrightarrow>
       l1 = l
     \<and> (\<forall>w2. files w2 = files w \<longrightarrow> fst (get_schema lib n t (l1, w2)) = Inl e)
     \<and> (t = ''mandates'' \<or> t = ''events'' \<longrightarrow>
          (\<forall>w2. \<exists>p. snd (snd (get_schema lib n t (l1, w2))) =
                  w2\<lparr>opened := opened w2 @ [p]\<rparr>)))
 \<and> (get_validator lib n t (v, w) = (Inr vd, v1, w1') \<longrightarrow>
       length (opened w1') \<le> length (opened w) + 1
     \<and> (\<forall>w2. get_validator lib n t (v1, w2) = (Inr vd, v1, w2)))
 \<and> (get_validator lib n t (v, w) = (Inl e', v1, w1') \<longrightarrow>
       v1 = v
     \<and> (\<forall>w2. files w2 = files w \<longrightarrow> fst (get_validator lib n t (v1, w2)) = Inl e')
     \<and> (t = ''mandates'' \<or> t = ''events'' \<longrightarrow>
          (\<forall>w2. \<exists>p. snd (snd (get_validator lib n t (v1, w2))) =
                  w2\<lparr>opened := opened w2 @ [p]\<rparr>)))"
  using get_schema_twice_ok [of lib n t l w s l1 w1]
    get_schema_twice_fail [of lib n t l w e l1 w1]
    get_validator_twice_ok [of lib n t v w vd v1 w1']
    get_validator_twice_fail [of lib n t v w e' v1 w1']
  by blast

lemma example_get_schema_any:
  "get_schema example_lib ''any'' ''mandates'' (example_loader, example_world) =
     (Inr ''true'',
      example_loader\<lparr>schemas_cache := [''mandates/any'' \<mapsto> ''true'']\<rparr>,
      \<lparr>files = example_files, listing = example_listing,
       opened = [''/repo/common/mandates/any.schema.json'']\<rparr>)"
  by (simp add: example_defs)

lemma example_get_schema_nope:
  "get_schema example_lib ''nope'' ''mandates'' (example_loader, example_world) =
     (Inl (ContractValidationError
        ''Schema not found at /repo/common/mandates/nope.schema.json''),
      example_loader,
      example_world\<lparr>opened := [''/repo/common/mandates/nope.schema.json'']\<rparr>)"
  by (simp add: example_defs)

theorem caching_idempotent_witness:
  "(let r = get_schema example_lib ''any'' ''mandates'' (example_loader, example_world)
    in fst r = Inr ''true''
     \<and> get_schema example_lib ''any'' ''mandates'' (snd r) = r
     \<and> length (opened (snd (snd r))) \<le> 1)
 \<and> (let r = get_validator example_lib ''any'' ''mandates'' (example_validator, example_world)
    in fst r = Inr (Draft202012Validator ''true'')
     \<and> get_validator example_lib ''any'' ''mandates'' (snd r) = r
     \<and> length (opened (snd (snd r))) \<le> 1)
 \<and> (let r = get_schema example_lib ''nope'' ''mandates'' (example_loader, example_world)
    in fst r = Inl (ContractValidationError
                 ''Schema not found at /repo/common/mandates/nope.schema.json'')
     \<and> fst (snd r) = example_loader
     \<and> fst (get_schema example_lib ''nope'' ''mandates'' (snd r)) = fst r
     \<and> (\<exists>p. snd (snd (get_schema example_lib ''nope'' ''mandates'' (snd r))) =
             (snd (snd r))\<lparr>opened := opened (snd (snd r)) @ [p]\<rparr>))
 \<and> (let r = get_validator example_lib ''nope'' ''mandates'' (example_validator, example_world)
    in fst r = Inl (ContractValidationError
                 ''Schema not found at /repo/common/mandates/nope.schema.json'')
     \<and> fst (snd r) = example_validator
     \<and> fst (get_validator example_lib ''nope'' ''mandates'' (snd r)) = fst r
     \<and> (\<exists>p. snd (snd (get_validator example_lib ''nope'' ''mandates'' (snd r))) =
             (snd (snd r))\<lparr>opened := opened (snd (snd r)) @ [p]\<rparr>))"
proof -
  let ?L = "example_loader\<lparr>schemas_cache := [''mandates/any'' \<mapsto> ''true'']\<rparr>"
  let ?V = "\<lparr>schema_loader = ?L,
       validators_cache = [''mandates/any'' \<mapsto> Draft202012Validator ''true'']\<rparr>"
  let ?W = "\<lparr>files = example_files, listing = example_listing,
       opened = [''/repo/common/mandates/any.schema.json'']\<rparr>"
  let ?E = "ContractValidationError
        ''Schema not found at /repo/common/mandates/nope.schema.json''"
  let ?Wn = "example_world\<lparr>opened := [''/repo/common/mandates/nope.schema.json'']\<rparr>"
  note ok = caching_idempotent [where lib = example_lib and n = "''any''"
      and t = "''mandates''" and l = example_loader and w = example_world
      and s = "''true''" and ?l1.0 = ?L and ?w1.0 = ?W and v = example_validator
      and vd = "Draft202012Validator ''true''" and ?v1.0 = ?V and w1' = ?W]
  note fail = caching_idempotent [where lib = example_lib and n = "''nope''"
      and t = "''mandates''" and l = example_loader and w = example_world
      and e = ?E and ?l1.0 = example_loader and ?w1.0 = ?Wn and v = example_validator
      and e' = ?E and ?v1.0 = example_validator and w1' = ?Wn]
  have f: "files ?Wn = files example_world" by simp
  have a: "get_schema example_lib ''any'' ''mandates'' (?L, ?W) = (Inr ''true'', ?L, ?W)"
    using ok example_get_schema_any by blast
  have b: "get_validator example_lib ''any'' ''mandates'' (?V, ?W) =
        (Inr (Draft202012Validator ''true''), ?V, ?W)"
    using ok example_get_validator_any by blast
  have c: "fst (get_schema example_lib ''nope'' ''mandates'' (example_loader, ?Wn)) = Inl ?E"
    using fail example_get_schema_nope f by blast
  have d: "\<exists>p. snd (snd (get_schema example_lib ''nope'' ''mandates'' (example_loader, ?Wn))) =
             ?Wn\<lparr>opened := opened ?Wn @ [p]\<rparr>"
    using fail example_get_schema_nope by blast
  have e: "fst (get_validator example_lib ''nope'' ''mandates'' (example_validator, ?Wn)) = Inl ?E"
    using fail example_get_validator_nope f by blast
  have g: "\<exists>p. snd (snd (get_validator example_lib ''nope'' ''mandates'' (example_validator, ?Wn))) =
             ?Wn\<lparr>opened := opened ?Wn @ [p]\<rparr>"
    using fail example_get_validator_nope by blast
  show ?thesis
    unfolding Let_def example_get_schema_any example_get_validator_any
      example_get_schema_nope example_get_validator_nope fst_conv snd_conv
    using a b c d e g by (intro conjI) simp_all
qed

text \<open>
  Claim C3. On a cache miss a schema type other than \<open>mandates\<close> and
  \<open>events\<close> raises "Unknown schema type" and opens nothing
  (\<open>get_schema_unknown\<close>). But the type is checked only after the cache has been
  consulted, and the cache key joins type and name with a slash, so two identifiers
  can share a key. Here \<open>common/mandates/a/b.schema.json\<close> exists and has been
  loaded as the mandate schema \<open>a/b\<close> under the key \<open>mandates/a/b\<close>; the
  call with name \<open>b\<close> and the unknown type \<open>mandates/a\<close> then finds that key
  and returns the schema instead of raising.
\<close>

theorem get_schema_unknown_type_cache_hit:
  "''mandates/a'' \<noteq> ''mandates'' \<and> ''mandates/a'' \<noteq> ''events''
   \<and> (let r = get_schema example_lib ''a/b'' ''mandates'' (example_loader, example_world)
      in fst r = Inr ''{}''
       \<and> get_schema example_lib ''b'' ''mandates/a'' (snd r) = (Inr ''{}'', snd r))"
  by (simp add: example_defs Let_def)

section \<open>Listing the available schemas\<close>

lemma rfind_append:
  "rfind c (xs @ ys) =
     (case rfind c ys of Some i \<Rightarrow> Some (length xs + i) | None \<Rightarrow> rfind c xs)"
  by (induction xs) (auto split: option.splits)

lemma endswith_append: "endswith n suf = (\<exists>pre. n = pre @ suf)"
proof
  assume "endswith n suf"
  then have "n = take (length n - length suf) n @ suf"
    by (metis append_take_drop_id endswith_def)
  then show "\<exists>pre. n = pre @ suf" ..
next
  assume "\<exists>pre. n = pre @ suf"
  then show "endswith n suf" by (auto simp: endswith_def)
qed

lemma stem_schema_json:
  assumes "endswith n ''.schema.json''"
  shows "stem n = take (length n - 5) n"
proof -
  from assms obtain pre where n: "n = pre @ ''.schema.json''"
    by (auto simp: endswith_append)
  have "rfind CHR ''.'' ''.schema.json'' = Some 7" by simp
  then have "rfind CHR ''.'' n = Some (length pre + 7)"
    by (simp add: n rfind_append del: rfind.simps)
  then show ?thesis by (simp add: stem_def n)
qed

lemma glob_stems_names:
  "listing w (str_path d) = Some names \<Longrightarrow>
     glob_stems w d =
       map (\<lambda>n. take (length n - 5) n) (filter (\<lambda>n. endswith n ''.schema.json'') names)"
  by (simp add: glob_stems_def stem_schema_json cong: map_cong)

lemma glob_stems_absent: "listing w (str_path d) = None \<Longrightarrow> glob_stems w d = []"
  by (simp add: glob_stems_def)

lemma glob_stems_no_schema_file:
  "listing w (str_path d) = Some names \<Longrightarrow>
     \<forall>n \<in> set names. \<not> endswith n ''.schema.json'' \<Longrightarrow> glob_stems w d = []"
  by (simp add: glob_stems_def filter_empty_conv)

lemma list_available_schemas_stems:
  assumes "c = ''mandates'' \<and> d = mandates_dir l \<or> c = ''events'' \<and> d = events_dir l"
  shows "map_of (list_available_schemas l w) c =
     Some (case listing w (str_path d) of
             None \<Rightarrow> []
           | Some names \<Rightarrow>
               map (\<lambda>n. take (length n - 5) n)
                 (filter (\<lambda>n. endswith n ''.schema.json'') names))"
  using assms
  by (auto simp: list_available_schemas_def glob_stems_absent glob_stems_names
      split: option.splits)

lemma listed_name_keeps_schema_suffix:
  assumes "n \<in> set (glob_stems w d)"
  shows "endswith n ''.schema''"
proof -
  from assms obtain names m where "listing w (str_path d) = Some names"
    and m: "endswith m ''.schema.json''" and n: "n = take (length m - 5) m"
    by (cases "listing w (str_path d)") (auto simp: glob_stems_absent glob_stems_names)
  from m obtain pre where "m = pre @ ''.schema.json''"
    by (auto simp: endswith_append)
  with n have "n = pre @ ''.schema''" by simp
  then show ?thesis by (auto simp: endswith_append)
qed

text \<open>
  Claim C8. \<open>list_available_schemas\<close> lists, for each category, the entries of the
  category directory whose file name ends in \<open>.schema.json\<close>, and the list is
  empty when the directory is absent or holds no such entry
  (\<open>list_available_schemas_stems\<close>). But the name it gives is \<open>Path.stem\<close> of the
  file name, which removes the final \<open>.json\<close> only, so that every listed name
  ends in \<open>.schema\<close> (\<open>listed_name_keeps_schema_suffix\<close>): the schema
  \<open>any\<close>, stored as
  \<open>any.schema.json\<close>, is listed as \<open>any.schema\<close>. That is not the name of the
  schema: \<open>get_schema\<close> loads \<open>any\<close>, while for the listed name it looks for
  \<open>any.schema.schema.json\<close> and fails.
\<close>

theorem list_available_schemas_names_not_schema_names:
  "list_available_schemas example_loader example_world =
     [(''mandates'',
       [''any.schema'', ''none.schema'', ''bad.schema'', ''scores.schema'',
        ''dangling.schema'']),
      (''events'', [])]
   \<and> fst (get_schema example_lib ''any'' ''mandates'' (example_loader, example_world)) =
       Inr ''true''
   \<and> fst (get_schema example_lib ''any.schema'' ''mandates''
          (example_loader, example_world)) =
       Inl (ContractValidationError
         ''Schema not found at /repo/common/mandates/any.schema.schema.json'')"
  by (simp add: example_defs list_available_schemas_def glob_stems_def example_listing_def
      endswith_def stem_def)

section \<open>Injecting the trace identifier\<close>

text \<open>
  Claim C9. For an envelope that is a dictionary of the store and any trace
  identifier, \<open>inject_trace_id_ce\<close> returns the address \<open>m\<close> of a new
  dictionary, different from the envelope's, in which \<open>subject\<close> is the trace
  identifier and every other key has the value (or absence) it has in the envelope.
  The envelope and every other dictionary that existed before the call are
  unchanged; the store has grown by the one new dictionary.
\<close>

theorem inject_trace_id_ce_frame:
  assumes "envelope < length h"
  shows "\<exists>m h'. inject_trace_id_ce h envelope trace_id = Some (m, h')
     \<and> m \<noteq> envelope \<and> m < length h'
     \<and> (h' ! m) ''subject'' = Some (PStr trace_id)
     \<and> (\<forall>k. k \<noteq> ''subject'' \<longrightarrow> (h' ! m) k = (h ! envelope) k)
     \<and> h' ! envelope = h ! envelope
     \<and> (\<forall>a < length h. h' ! a = h ! a)
     \<and> length h' = length h + 1"
proof -
  let ?h' = "h @ [(h ! envelope)(''subject'' \<mapsto> PStr trace_id)]"
  have r: "inject_trace_id_ce h envelope trace_id = Some (length h, ?h')"
    using assms by (simp add: inject_trace_id_ce_def dict_copy_def dict_setitem_def)
  have "length h \<noteq> envelope" using assms by simp
  moreover have "?h' ! length h = (h ! envelope)(''subject'' \<mapsto> PStr trace_id)" by simp
  moreover have "\<forall>a < length h. ?h' ! a = h ! a" by (simp add: nth_append)
  ultimately show ?thesis using r assms by (intro exI [of _ "length h"] exI [of _ ?h']) simp
qed

theorem inject_trace_id_ce_frame_witness:
  "(0::nat) < length example_heap
   \<and> (\<exists>m h'. inject_trace_id_ce example_heap 0 ''trace-456'' = Some (m, h')
         \<and> m \<noteq> 0
         \<and> (h' ! m) ''subject'' = Some (PStr ''trace-456'')
         \<and> (h' ! m) ''id'' = Some (PStr ''event-123'')
         \<and> (h' ! m) ''data'' = Some (PObj 1)
         \<and> h' ! 0 = [''id'' \<mapsto> PStr ''event-123'', ''data'' \<mapsto> PObj 1]
         \<and> h' ! 1 = [''decision'' \<mapsto> PStr ''APPROVE''])"
proof -
  have l: "(0::nat) < length example_heap" by (simp add: example_heap_def)
  from inject_trace_id_ce_frame [OF l, of "''trace-456''"]
  obtain m h' where r: "inject_trace_id_ce example_heap 0 ''trace-456'' = Some (m, h')"
    and m: "m \<noteq> 0"
    and s: "(h' ! m) ''subject'' = Some (PStr ''trace-456'')"
    and k: "\<forall>k. k \<noteq> ''subject'' \<longrightarrow> (h' ! m) k = (example_heap ! 0) k"
    and a: "\<forall>a < length example_heap. h' ! a = example_heap ! a"
    by blast
  from k have "(h' ! m) ''id'' = Some (PStr ''event-123'')"
    and "(h' ! m) ''data'' = Some (PObj 1)"
    by (simp_all add: example_heap_def)
  moreover from a have "h' ! 0 = [''id'' \<mapsto> PStr ''event-123'', ''data'' \<mapsto> PObj 1]"
    and "h' ! 1 = [''decision'' \<mapsto> PStr ''APPROVE'']"
    by (simp_all add: example_heap_def)
  ultimately show ?thesis using l r m s by blast
qed

end
